theory Spec2Isabelle
  imports Complex_Main
begin

section \<open>JavaScript values\<close>

text \<open>
  The values that flow through \<open>src/index.js\<close>. A JavaScript number is modelled by a
  rational: every finite double is one, and a JSON body cannot hold \<open>NaN\<close> (a numeral too
  large for a double, which parses to \<open>Infinity\<close>, is left out). An object is
  an association list in property order. A \<open>Date\<close> object (the value the database driver
  builds for a \<open>DATE\<close> column) is a calendar date.
\<close>

datatype date = Date (year: nat) (month: nat) (day: nat)

datatype jsval =
    JUndefined
  | JNull
  | JBool bool
  | JNum rat
  | JStr string
  | JDate date
  | JObj "(string \<times> jsval) list"
  | JArr "jsval list"

datatype error = TypeError string

text \<open>Truthiness, as \<open>!x\<close> and \<open>if (x)\<close> read it.\<close>

fun truthy :: "jsval \<Rightarrow> bool" where
  "truthy JUndefined = False"
| "truthy JNull = False"
| "truthy (JBool b) = b"
| "truthy (JNum n) = (n \<noteq> 0)"
| "truthy (JStr s) = (s \<noteq> [])"
| "truthy (JDate d) = True"
| "truthy (JObj kvs) = True"
| "truthy (JArr xs) = True"

fun typeof :: "jsval \<Rightarrow> string" where
  "typeof JUndefined = ''undefined''"
| "typeof JNull = ''object''"
| "typeof (JBool b) = ''boolean''"
| "typeof (JNum n) = ''number''"
| "typeof (JStr s) = ''string''"
| "typeof (JDate d) = ''object''"
| "typeof (JObj kvs) = ''object''"
| "typeof (JArr xs) = ''object''"

text \<open>
  Property read \<open>x.k\<close>: a \<open>TypeError\<close> on \<open>undefined\<close> and \<open>null\<close>, \<open>undefined\<close> for a
  property that is not there.
\<close>

fun get_property :: "jsval \<Rightarrow> string \<Rightarrow> error + jsval" where
  "get_property JUndefined k = Inl (TypeError (''Cannot read property of undefined: '' @ k))"
| "get_property JNull k = Inl (TypeError (''Cannot read property of null: '' @ k))"
| "get_property (JObj kvs) k = Inr (case map_of kvs k of None \<Rightarrow> JUndefined | Some v \<Rightarrow> v)"
| "get_property (JStr s) k = Inr (if k = ''length'' then JNum (of_nat (length s)) else JUndefined)"
| "get_property (JArr xs) k = Inr (if k = ''length'' then JNum (of_nat (length xs)) else JUndefined)"
| "get_property (JBool b) k = Inr JUndefined"
| "get_property (JNum n) k = Inr JUndefined"
| "get_property (JDate d) k = Inr JUndefined"

text \<open>Property write \<open>x.k = v\<close> on an object: an existing key keeps its place, a new one goes last.\<close>

fun set_field :: "string \<Rightarrow> jsval \<Rightarrow> (string \<times> jsval) list \<Rightarrow> (string \<times> jsval) list" where
  "set_field k v [] = [(k, v)]"
| "set_field k v (p # ps) = (if fst p = k then (k, v) # ps else p # set_field k v ps)"

fun set_property :: "jsval \<Rightarrow> string \<Rightarrow> jsval \<Rightarrow> error + jsval" where
  "set_property JUndefined k v = Inl (TypeError (''Cannot set property of undefined: '' @ k))"
| "set_property JNull k v = Inl (TypeError (''Cannot set property of null: '' @ k))"
| "set_property (JObj kvs) k v = Inr (JObj (set_field k v kvs))"
| "set_property x k v = Inr x"

text \<open>Element read \<open>xs[0]\<close> of an array: \<open>undefined\<close> when the array is empty.\<close>

fun first_element :: "jsval \<Rightarrow> error + jsval" where
  "first_element JUndefined = Inl (TypeError ''Cannot read property 0 of undefined'')"
| "first_element JNull = Inl (TypeError ''Cannot read property 0 of null'')"
| "first_element (JArr xs) = Inr (case xs of [] \<Rightarrow> JUndefined | x # _ \<Rightarrow> x)"
| "first_element x = Inr JUndefined"

text \<open>\<open>x === q\<close> for a number literal \<open>q\<close>: true for that number only.\<close>

fun strict_eq_number :: "jsval \<Rightarrow> rat \<Rightarrow> bool" where
  "strict_eq_number (JNum n) q = (n = q)"
| "strict_eq_number x q = False"

text \<open>
  The integers a double holds exactly, from \<open>-(2^53 - 1)\<close> to \<open>2^53 - 1\<close>. In this range
  \<open>parseInt\<close> and \<open>template_string\<close> below agree with JavaScript; what is stated about the
  value or the print of an id is stated for ids in this range.
\<close>

definition safe_integer :: "int \<Rightarrow> bool" where
  "safe_integer n = (- 9007199254740991 \<le> n \<and> n \<le> 9007199254740991)"

text \<open>
  The decimal numeral of an integer, as a template literal prints an integer-valued number
  below \<open>10^21\<close> (from there on JavaScript prints the exponent form, which is not modelled).
  The only number that reaches a template literal in the source is the id \<open>parseInt\<close>
  returned, an integer.
\<close>

fun decimal :: "nat \<Rightarrow> string" where
  "decimal n = (if n < 10 then [''0123456789'' ! n]
                else decimal (n div 10) @ [''0123456789'' ! (n mod 10)])"

declare decimal.simps [simp del]

definition int_string :: "int \<Rightarrow> string" where
  "int_string i = (if i < 0 then CHR ''-'' # decimal (nat (- i)) else decimal (nat i))"

fun template_string :: "jsval \<Rightarrow> string" where
  "template_string JUndefined = ''undefined''"
| "template_string JNull = ''null''"
| "template_string (JBool b) = (if b then ''true'' else ''false'')"
| "template_string (JNum n) = int_string \<lfloor>n\<rfloor>"
| "template_string (JStr s) = s"
| "template_string x = ''[object Object]''"

section \<open>Strings: the expiration pattern and parseInt\<close>

definition is_digit :: "char \<Rightarrow> bool" where
  "is_digit c = (48 \<le> (of_char c :: nat) \<and> (of_char c :: nat) \<le> 57)"

text \<open>The pattern \<open>\d{4}-\d{2}-\d{2}\<close> at the start of a string.\<close>

fun pattern_here :: "string \<Rightarrow> bool" where
  "pattern_here (y1 # y2 # y3 # y4 # s1 # m1 # m2 # s2 # d1 # d2 # rest) =
     (is_digit y1 \<and> is_digit y2 \<and> is_digit y3 \<and> is_digit y4 \<and> s1 = CHR ''-'' \<and>
      is_digit m1 \<and> is_digit m2 \<and> s2 = CHR ''-'' \<and> is_digit d1 \<and> is_digit d2)"
| "pattern_here s = False"

text \<open>
  \<open>EXPIRATION_REGEX.test(s)\<close>: the regular expression has no anchors, so it looks for the
  pattern at every position of the string.
\<close>

fun EXPIRATION_REGEX_test :: "string \<Rightarrow> bool" where
  "EXPIRATION_REGEX_test [] = False"
| "EXPIRATION_REGEX_test (c # cs) = (pattern_here (c # cs) \<or> EXPIRATION_REGEX_test cs)"

text \<open>A string that is exactly of the form \<open>YYYY-MM-DD\<close>.\<close>

definition is_yyyy_mm_dd :: "string \<Rightarrow> bool" where
  "is_yyyy_mm_dd s = (length s = 10 \<and> pattern_here s)"

definition is_space :: "char \<Rightarrow> bool" where
  "is_space c = ((9 \<le> (of_char c :: nat) \<and> (of_char c :: nat) \<le> 13) \<or>
                 (of_char c :: nat) = 32 \<or> (of_char c :: nat) = 160)"

definition digit_value :: "char \<Rightarrow> nat option" where
  "digit_value c =
     (let n = (of_char c :: nat) in
      if 48 \<le> n \<and> n \<le> 57 then Some (n - 48)
      else if 97 \<le> n \<and> n \<le> 122 then Some (n - 87)
      else if 65 \<le> n \<and> n \<le> 90 then Some (n - 55)
      else None)"

fun is_radix_digit :: "nat \<Rightarrow> char \<Rightarrow> bool" where
  "is_radix_digit R c = (case digit_value c of None \<Rightarrow> False | Some v \<Rightarrow> v < R)"

fun digits_value :: "nat \<Rightarrow> string \<Rightarrow> nat \<Rightarrow> nat" where
  "digits_value R [] acc = acc"
| "digits_value R (c # cs) acc =
     (case digit_value c of
        None \<Rightarrow> acc
      | Some v \<Rightarrow> if v < R then digits_value R cs (acc * R + v) else acc)"

text \<open>
  \<open>parseInt(s)\<close> with no radix: leading white space is skipped, a sign is read, a prefix
  \<open>0x\<close> or \<open>0X\<close> selects radix 16, then the longest run of digits is the value and what
  follows it is ignored; \<open>None\<close> is \<open>NaN\<close> (no digit at all). The value is the exact
  integer of the digits; JavaScript returns the nearest double, which is the same number when
  the value is a \<open>safe_integer\<close> and a rounded one (or \<open>Infinity\<close>) beyond.
\<close>

definition parseInt :: "string \<Rightarrow> int option" where
  "parseInt s =
     (let t = dropWhile is_space s;
          sign = (case t of [] \<Rightarrow> 1 | c # r \<Rightarrow> if c = CHR ''-'' then - 1 else (1::int));
          u = (case t of [] \<Rightarrow> t | c # r \<Rightarrow> if c = CHR ''-'' \<or> c = CHR ''+'' then r else t);
          R = (if take 2 u = ''0x'' \<or> take 2 u = ''0X'' then 16 else (10::nat));
          v = (if take 2 u = ''0x'' \<or> take 2 u = ''0X'' then drop 2 u else u)
      in case v of
           [] \<Rightarrow> None
         | c # r \<Rightarrow> if is_radix_digit R c then Some (sign * int (digits_value R v 0)) else None)"

section \<open>The response object\<close>

text \<open>
  The handlers act on the response through \<open>statusCode\<close>, \<open>statusMessage\<close>, \<open>end()\<close> and
  \<open>json(v)\<close>. The record keeps the two fields and, in \<open>written\<close>, the responses that were
  sent, each with the status (and message) the object held when it was sent. A response is
  finished once something was sent: \<open>end()\<close> on a finished response sends nothing, while
  assignments to \<open>statusCode\<close> and \<open>statusMessage\<close> still change the fields of the object.
\<close>

datatype sent = Ended nat string | JsonBody nat jsval

record response =
  statusCode :: nat
  statusMessage :: string
  written :: "sent list"

definition fresh_response :: response where
  "fresh_response = \<lparr>statusCode = 200, statusMessage = [], written = []\<rparr>"

definition response_end :: "response \<Rightarrow> response" where
  "response_end r =
     (if written r = [] then r\<lparr>written := [Ended (statusCode r) (statusMessage r)]\<rparr> else r)"

text \<open>
  \<open>json(v)\<close> sends the body with the current status. On a finished response the framework
  refuses it with an exception, where the model records the body as one more entry; the
  handlers never get there from a response nothing was sent on (proved below: no handler
  leaves more than one entry).
\<close>

definition response_json :: "jsval \<Rightarrow> response \<Rightarrow> response" where
  "response_json v r = r\<lparr>written := written r @ [JsonBody (statusCode r) v]\<rparr>"

definition userError :: "response \<Rightarrow> string \<Rightarrow> response" where
  "userError r err = response_end (r\<lparr>statusCode := 400, statusMessage := err\<rparr>)"

section \<open>The database\<close>

text \<open>
  Modelled from the spec: the pantry table and the database behind \<open>db.query\<close>, which are
  not part of \<open>src/index.js\<close>. The table has the columns \<open>ID\<close> (integer, assigned by the
  database), \<open>NAME\<close> (text), \<open>EXPIRATION\<close> (date) and \<open>QUANTITY\<close> (integer); the five
  statements are the five query texts of the source. The callback of a query receives
  \<open>(err, result)\<close> as the driver passes them: on failure the error and no result
  (\<open>result\<close> is \<open>undefined\<close>), on success \<open>null\<close> and a result whose \<open>rows\<close> is an array
  of row objects; the count query has the one row \<open>{count: '<n>'}\<close>. \<open>fault\<close> says which
  queries fail for a reason outside the statement (a lost connection, a server error); a
  parameter the column type refuses fails too.
\<close>

record row =
  row_id :: int
  row_name :: string
  row_quantity :: int
  row_expiration :: date

datatype statement = INSERT_PANTRY | SELECT_COUNT | UPDATE_PANTRY | DELETE_PANTRY | SELECT_PANTRY

record database =
  pantry :: "row list"
  next_id :: int
  fault :: "statement \<Rightarrow> jsval list \<Rightarrow> string option"

definition db_error :: "string \<Rightarrow> jsval" where
  "db_error m = JObj [(''message'', JStr m)]"

definition result_rows :: "jsval list \<Rightarrow> jsval" where
  "result_rows rs = JObj [(''rows'', JArr rs)]"

fun pg_text :: "jsval \<Rightarrow> string option" where
  "pg_text (JStr s) = Some s"
| "pg_text x = None"

text \<open>The range of the column type \<open>integer\<close> (four bytes).\<close>

definition in_int4 :: "int \<Rightarrow> bool" where
  "in_int4 k = (- 2147483648 \<le> k \<and> k \<le> 2147483647)"

fun pg_integer :: "jsval \<Rightarrow> int option" where
  "pg_integer (JNum q) = (if of_int \<lfloor>q\<rfloor> = q \<and> in_int4 \<lfloor>q\<rfloor> then Some \<lfloor>q\<rfloor> else None)"
| "pg_integer x = None"

definition days_in_month :: "nat \<Rightarrow> nat \<Rightarrow> nat" where
  "days_in_month y m =
     (if m = 2 then (if y mod 4 = 0 \<and> (y mod 100 \<noteq> 0 \<or> y mod 400 = 0) then 29 else 28)
      else if m = 4 \<or> m = 6 \<or> m = 9 \<or> m = 11 then 30 else 31)"

fun pg_date :: "jsval \<Rightarrow> date option" where
  "pg_date (JStr s) =
     (let y = digits_value 10 (take 4 s) 0;
          m = digits_value 10 (take 2 (drop 5 s)) 0;
          d = digits_value 10 (take 2 (drop 8 s)) 0
      in if is_yyyy_mm_dd s \<and> 1 \<le> y \<and> 1 \<le> m \<and> m \<le> 12 \<and> 1 \<le> d \<and> d \<le> days_in_month y m
         then Some (Date y m d) else None)"
| "pg_date x = None"

text \<open>
  The parameter of \<open>WHERE ID = $1\<close>: \<open>undefined\<close> and \<open>null\<close> are sent as \<open>NULL\<close>, which
  equals no id; a number must be an integer of the column's range.
\<close>

fun id_param_ok :: "jsval \<Rightarrow> bool" where
  "id_param_ok JUndefined = True"
| "id_param_ok JNull = True"
| "id_param_ok (JNum q) = (of_int \<lfloor>q\<rfloor> = q \<and> in_int4 \<lfloor>q\<rfloor>)"
| "id_param_ok x = False"

fun id_matches :: "jsval \<Rightarrow> row \<Rightarrow> bool" where
  "id_matches (JNum q) r = (q = of_int (row_id r))"
| "id_matches x r = False"

definition row_object :: "row \<Rightarrow> jsval" where
  "row_object r =
     JObj [(''name'', JStr (row_name r)), (''quantity'', JNum (of_int (row_quantity r))),
           (''expiration'', JDate (row_expiration r)), (''id'', JNum (of_int (row_id r)))]"

definition refused :: "database \<Rightarrow> (jsval \<times> jsval) \<times> database" where
  "refused d = ((db_error ''invalid input'', JUndefined), d)"

definition insert_row :: "jsval list \<Rightarrow> database \<Rightarrow> (jsval \<times> jsval) \<times> database" where
  "insert_row ps d =
     (case ps of
        [name, expiration, quantity] \<Rightarrow>
          (case (pg_text name, pg_date expiration, pg_integer quantity) of
             (Some n, Some e, Some q) \<Rightarrow>
               ((JNull, result_rows [JObj [(''id'', JNum (of_int (next_id d)))]]),
                d\<lparr>pantry := pantry d @
                     [\<lparr>row_id = next_id d, row_name = n, row_quantity = q, row_expiration = e\<rparr>],
                  next_id := next_id d + 1\<rparr>)
           | _ \<Rightarrow> refused d)
      | _ \<Rightarrow> refused d)"

definition count_rows :: "jsval list \<Rightarrow> database \<Rightarrow> (jsval \<times> jsval) \<times> database" where
  "count_rows ps d =
     (case ps of
        [i] \<Rightarrow>
          if id_param_ok i
          then ((JNull, result_rows
                   [JObj [(''count'', JStr (decimal (length (filter (id_matches i) (pantry d)))))]]), d)
          else refused d
      | _ \<Rightarrow> refused d)"

definition update_rows :: "jsval list \<Rightarrow> database \<Rightarrow> (jsval \<times> jsval) \<times> database" where
  "update_rows ps d =
     (case ps of
        [name, expiration, quantity, i] \<Rightarrow>
          (case (pg_text name, pg_date expiration, pg_integer quantity) of
             (Some n, Some e, Some q) \<Rightarrow>
               if id_param_ok i
               then ((JNull, result_rows []),
                     d\<lparr>pantry := map (\<lambda>r. if id_matches i r
                          then r\<lparr>row_name := n, row_expiration := e, row_quantity := q\<rparr> else r)
                          (pantry d)\<rparr>)
               else refused d
           | _ \<Rightarrow> refused d)
      | _ \<Rightarrow> refused d)"

definition delete_rows :: "jsval list \<Rightarrow> database \<Rightarrow> (jsval \<times> jsval) \<times> database" where
  "delete_rows ps d =
     (case ps of
        [i] \<Rightarrow>
          if id_param_ok i
          then ((JNull, result_rows []),
                d\<lparr>pantry := filter (\<lambda>r. \<not> id_matches i r) (pantry d)\<rparr>)
          else refused d
      | _ \<Rightarrow> refused d)"

definition select_rows :: "jsval list \<Rightarrow> database \<Rightarrow> (jsval \<times> jsval) \<times> database" where
  "select_rows ps d = ((JNull, result_rows (map row_object (pantry d))), d)"

fun run_statement :: "statement \<Rightarrow> jsval list \<Rightarrow> database \<Rightarrow> (jsval \<times> jsval) \<times> database" where
  "run_statement INSERT_PANTRY ps d = insert_row ps d"
| "run_statement SELECT_COUNT ps d = count_rows ps d"
| "run_statement UPDATE_PANTRY ps d = update_rows ps d"
| "run_statement DELETE_PANTRY ps d = delete_rows ps d"
| "run_statement SELECT_PANTRY ps d = select_rows ps d"

text \<open>\<open>db.query(text, params, callback)\<close>: the pair is what the callback receives as \<open>(err, result)\<close>.\<close>

definition db_query :: "statement \<Rightarrow> jsval list \<Rightarrow> database \<Rightarrow> (jsval \<times> jsval) \<times> database" where
  "db_query st ps d =
     (case fault d st ps of
        Some m \<Rightarrow> ((db_error m, JUndefined), d)
      | None \<Rightarrow> run_statement st ps d)"

text \<open>A query succeeds when its callback gets no error.\<close>

definition query_succeeds :: "statement \<Rightarrow> jsval list \<Rightarrow> database \<Rightarrow> bool" where
  "query_succeeds st ps d = (\<not> truthy (fst (fst (db_query st ps d))))"

section \<open>The state of one request\<close>

text \<open>
  A handler runs on the database, the response object and the console. It ends normally, or
  with an exception nobody catches (thrown inside a query callback), in the state reached.
\<close>

record world =
  db :: database
  res :: response
  console :: "jsval list"

datatype outcome = Done world | Uncaught error world

definition attempt :: "error + 'a \<Rightarrow> world \<Rightarrow> ('a \<Rightarrow> outcome) \<Rightarrow> outcome" where
  "attempt x w k = (case x of Inl e \<Rightarrow> Uncaught e w | Inr v \<Rightarrow> k v)"

record request =
  body :: "(string \<times> jsval) list"
  params :: "(string \<times> string) list"

text \<open>\<open>request.body.k\<close>: the body is the parsed JSON object (\<open>{}\<close> when nothing was sent).\<close>

definition body_field :: "request \<Rightarrow> string \<Rightarrow> jsval" where
  "body_field request k = (case map_of (body request) k of None \<Rightarrow> JUndefined | Some v \<Rightarrow> v)"

definition internalError :: "jsval \<Rightarrow> world \<Rightarrow> world" where
  "internalError err w =
     w\<lparr>res := response_end ((res w)\<lparr>statusCode := 500, statusMessage := ''Internal Error.''\<rparr>),
       console := console w @ [err]\<rparr>"

section \<open>Data access\<close>

text \<open>
  The functions of the source take a callback; so do these. The callback runs on the state
  the query left. A \<open>TypeError\<close> raised before the callback is called ends the request.
\<close>

definition insertItem :: "jsval \<Rightarrow> (jsval \<Rightarrow> jsval \<Rightarrow> world \<Rightarrow> outcome) \<Rightarrow> world \<Rightarrow> outcome" where
  "insertItem item callback w =
     attempt (get_property item ''name'') w (\<lambda>name.
     attempt (get_property item ''expiration'') w (\<lambda>expiration.
     attempt (get_property item ''quantity'') w (\<lambda>quantity.
       case db_query INSERT_PANTRY [name, expiration, quantity] (db w) of
         ((err, result), d) \<Rightarrow>
           attempt (get_property result ''rows'') (w\<lparr>db := d\<rparr>) (\<lambda>rows.
           attempt (first_element rows) (w\<lparr>db := d\<rparr>) (\<lambda>row0.
           attempt (get_property row0 ''id'') (w\<lparr>db := d\<rparr>) (\<lambda>i.
           attempt (set_property item ''id'' i) (w\<lparr>db := d\<rparr>) (\<lambda>item1.
             callback err item1 (w\<lparr>db := d\<rparr>))))))))"

definition itemExists :: "jsval \<Rightarrow> (bool \<Rightarrow> world \<Rightarrow> outcome) \<Rightarrow> world \<Rightarrow> outcome" where
  "itemExists item callback w =
     attempt (get_property item ''id'') w (\<lambda>i.
       case db_query SELECT_COUNT [i] (db w) of
         ((err, result), d) \<Rightarrow>
           attempt (get_property result ''rows'') (w\<lparr>db := d\<rparr>) (\<lambda>rows.
           attempt (first_element rows) (w\<lparr>db := d\<rparr>) (\<lambda>row0.
             callback (strict_eq_number row0 1) (w\<lparr>db := d\<rparr>))))"

definition not_present :: jsval where
  "not_present = JObj [(''present'', JBool False), (''item'', JUndefined)]"

definition updateItem :: "jsval \<Rightarrow> (jsval \<Rightarrow> jsval \<Rightarrow> world \<Rightarrow> outcome) \<Rightarrow> world \<Rightarrow> outcome" where
  "updateItem item callback w =
     itemExists item (\<lambda>exists w1.
       if \<not> exists then callback JUndefined not_present w1
       else
         attempt (get_property item ''name'') w1 (\<lambda>name.
         attempt (get_property item ''expiration'') w1 (\<lambda>expiration.
         attempt (get_property item ''quantity'') w1 (\<lambda>quantity.
         attempt (get_property item ''id'') w1 (\<lambda>i.
           case db_query UPDATE_PANTRY [name, expiration, quantity, i] (db w1) of
             ((err, result), d) \<Rightarrow> callback err item (w1\<lparr>db := d\<rparr>)))))) w"

definition deleteItem :: "jsval \<Rightarrow> (jsval \<Rightarrow> jsval \<Rightarrow> world \<Rightarrow> outcome) \<Rightarrow> world \<Rightarrow> outcome" where
  "deleteItem item callback w =
     itemExists item (\<lambda>exists w1.
       if \<not> exists then callback JUndefined not_present w1
       else
         attempt (get_property item ''id'') w1 (\<lambda>i.
           case db_query DELETE_PANTRY [i] (db w1) of
             ((err, result), d) \<Rightarrow> callback err item (w1\<lparr>db := d\<rparr>))) w"

text \<open>
  \<open>toLocaleDateString()\<close> is the runtime's: what it prints depends on the locale the process
  runs in. It is a parameter of the model, \<open>fmt\<close>, from the date to its string.
\<close>

fun call_toLocaleDateString :: "(date \<Rightarrow> string) \<Rightarrow> jsval \<Rightarrow> error + jsval" where
  "call_toLocaleDateString fmt (JDate d) = Inr (JStr (fmt d))"
| "call_toLocaleDateString fmt JUndefined =
     Inl (TypeError ''Cannot read property toLocaleDateString of undefined'')"
| "call_toLocaleDateString fmt JNull =
     Inl (TypeError ''Cannot read property toLocaleDateString of null'')"
| "call_toLocaleDateString fmt x = Inl (TypeError ''toLocaleDateString is not a function'')"

definition dateObjectToString :: "(date \<Rightarrow> string) \<Rightarrow> jsval \<Rightarrow> error + jsval" where
  "dateObjectToString fmt item =
     (case get_property item ''expiration'' of
        Inl e \<Rightarrow> Inl e
      | Inr expiration \<Rightarrow>
          (case call_toLocaleDateString fmt expiration of
             Inl e \<Rightarrow> Inl e
           | Inr s \<Rightarrow> set_property item ''expiration'' s))"

fun map_throw :: "('a \<Rightarrow> error + 'b) \<Rightarrow> 'a list \<Rightarrow> error + 'b list" where
  "map_throw f [] = Inr []"
| "map_throw f (x # xs) =
     (case f x of
        Inl e \<Rightarrow> Inl e
      | Inr y \<Rightarrow> (case map_throw f xs of Inl e \<Rightarrow> Inl e | Inr ys \<Rightarrow> Inr (y # ys)))"

fun array_map :: "(jsval \<Rightarrow> error + jsval) \<Rightarrow> jsval \<Rightarrow> error + jsval" where
  "array_map f (JArr xs) = (case map_throw f xs of Inl e \<Rightarrow> Inl e | Inr ys \<Rightarrow> Inr (JArr ys))"
| "array_map f JUndefined = Inl (TypeError ''Cannot read property map of undefined'')"
| "array_map f JNull = Inl (TypeError ''Cannot read property map of null'')"
| "array_map f x = Inl (TypeError ''map is not a function'')"

definition getItems :: "(date \<Rightarrow> string) \<Rightarrow> (jsval \<Rightarrow> jsval \<Rightarrow> world \<Rightarrow> outcome) \<Rightarrow> world \<Rightarrow> outcome" where
  "getItems fmt callback w =
     (case db_query SELECT_PANTRY [] (db w) of
        ((err, result), d) \<Rightarrow>
          attempt (get_property result ''rows'') (w\<lparr>db := d\<rparr>) (\<lambda>rows.
          attempt (array_map (dateObjectToString fmt) rows) (w\<lparr>db := d\<rparr>) (\<lambda>items.
            callback err items (w\<lparr>db := d\<rparr>))))"

section \<open>Validation\<close>

text \<open>
  A validator returns the value, or \<open>undefined\<close> after it has written a user error to the
  response; the second component is the response it leaves.
\<close>

fun number_less :: "jsval \<Rightarrow> rat \<Rightarrow> bool" where
  "number_less (JNum n) q = (n < q)"
| "number_less x q = False"

fun regex_test :: "jsval \<Rightarrow> bool" where
  "regex_test (JStr s) = EXPIRATION_REGEX_test s"
| "regex_test x = False"

definition getValidateName :: "request \<Rightarrow> response \<Rightarrow> jsval \<times> response" where
  "getValidateName request response =
     (let name = body_field request ''name'' in
      if \<not> truthy name then (JUndefined, userError response ''name was undefined.'')
      else if typeof name \<noteq> ''string'' \<or> get_property name ''length'' = Inr (JNum 0)
      then (JUndefined, userError response ''name was not a string or was empty.'')
      else (name, response))"

definition getValidatedQuantity :: "request \<Rightarrow> response \<Rightarrow> jsval \<times> response" where
  "getValidatedQuantity request response =
     (let quantity = body_field request ''quantity'' in
      if \<not> truthy quantity then (JUndefined, userError response ''quantity was undefined.'')
      else if typeof quantity \<noteq> ''number'' \<or> number_less quantity 1
      then (JUndefined, userError response ''quantity was not a number or was less than 1.'')
      else (quantity, response))"

definition getValidatedExpiration :: "request \<Rightarrow> response \<Rightarrow> jsval \<times> response" where
  "getValidatedExpiration request response =
     (let expiration = body_field request ''expiration'' in
      if \<not> truthy expiration then (JUndefined, userError response ''expiration was undefined.'')
      else if typeof expiration \<noteq> ''string'' \<or> \<not> regex_test expiration
      then (JUndefined, userError response
              (''expiration date was not a string '' @ ''or it was not of the format YYYY-MM-DD.''))
      else (expiration, response))"

text \<open>\<open>request.params.id\<close> is the path segment, a string; \<open>isNaN\<close> holds when \<open>parseInt\<close> found no digit.\<close>

definition getValidatedId :: "request \<Rightarrow> response \<Rightarrow> jsval \<times> response" where
  "getValidatedId request response =
     (case map_of (params request) ''id'' of
        None \<Rightarrow> (JUndefined, userError response ''id was undefined.'')
      | Some s \<Rightarrow>
          if s = [] then (JUndefined, userError response ''id was undefined.'')
          else (case parseInt s of
                  None \<Rightarrow> (JUndefined, userError response ''id was not a number.'')
                | Some n \<Rightarrow> (JNum (of_int n), response)))"

section \<open>Request handlers\<close>

definition get_callback :: "jsval \<Rightarrow> jsval \<Rightarrow> world \<Rightarrow> outcome" where
  "get_callback err items w =
     (if truthy err then Done (internalError err w)
      else Done (w\<lparr>res := response_json items (res w)\<rparr>))"

definition app_get :: "(date \<Rightarrow> string) \<Rightarrow> request \<Rightarrow> world \<Rightarrow> outcome" where
  "app_get fmt request w = getItems fmt get_callback w"

definition post_callback :: "jsval \<Rightarrow> jsval \<Rightarrow> world \<Rightarrow> outcome" where
  "post_callback err item w =
     (if truthy err then Done (internalError err w)
      else Done (w\<lparr>res := response_json item (res w)\<rparr>))"

definition app_post :: "request \<Rightarrow> world \<Rightarrow> outcome" where
  "app_post request w =
     (case getValidateName request (res w) of (name, r1) \<Rightarrow>
      case getValidatedQuantity request r1 of (quantity, r2) \<Rightarrow>
      case getValidatedExpiration request r2 of (expiration, r3) \<Rightarrow>
        if \<not> truthy name \<or> \<not> truthy quantity \<or> \<not> truthy expiration
        then Done (w\<lparr>res := r3\<rparr>)
        else insertItem
               (JObj [(''name'', name), (''quantity'', quantity), (''expiration'', expiration)])
               post_callback (w\<lparr>res := r3\<rparr>))"

text \<open>The callback of both \<open>DELETE /:id\<close> and \<open>POST /:id\<close>; \<open>idn\<close> is the handler's validated id.\<close>

definition id_callback :: "jsval \<Rightarrow> jsval \<Rightarrow> jsval \<Rightarrow> world \<Rightarrow> outcome" where
  "id_callback idn err result w =
     (if truthy err then Done (internalError err w)
      else
        attempt (get_property result ''present'') w (\<lambda>present.
          if \<not> truthy present
          then Done (w\<lparr>res := userError (res w)
                       (''Item with id '' @ template_string idn @ '' not found.'')\<rparr>)
          else attempt (get_property result ''item'') w (\<lambda>item.
                 Done (w\<lparr>res := response_json item (res w)\<rparr>))))"

definition app_delete_id :: "request \<Rightarrow> world \<Rightarrow> outcome" where
  "app_delete_id request w =
     (case getValidatedId request (res w) of (idn, r1) \<Rightarrow>
        if \<not> truthy idn then Done (w\<lparr>res := r1\<rparr>)
        else deleteItem idn (id_callback idn) (w\<lparr>res := r1\<rparr>))"

definition app_post_id :: "request \<Rightarrow> world \<Rightarrow> outcome" where
  "app_post_id request w =
     (case getValidateName request (res w) of (name, r1) \<Rightarrow>
      case getValidatedQuantity request r1 of (quantity, r2) \<Rightarrow>
      case getValidatedExpiration request r2 of (expiration, r3) \<Rightarrow>
      case getValidatedId request r3 of (idn, r4) \<Rightarrow>
        if \<not> truthy name \<or> \<not> truthy quantity \<or> \<not> truthy expiration \<or> \<not> truthy idn
        then Done (w\<lparr>res := r4\<rparr>)
        else updateItem
               (JObj [(''name'', name), (''quantity'', quantity), (''expiration'', expiration),
                      (''id'', idn)])
               (id_callback idn) (w\<lparr>res := r4\<rparr>))"

text \<open>A request passes validation when the three field validators return a value.\<close>

definition passes_validation :: "request \<Rightarrow> bool" where
  "passes_validation request =
     (truthy (fst (getValidateName request fresh_response)) \<and>
      truthy (fst (getValidatedQuantity request fresh_response)) \<and>
      truthy (fst (getValidatedExpiration request fresh_response)))"

text \<open>The world a handler ended in, normally or not.\<close>

fun final_world :: "outcome \<Rightarrow> world" where
  "final_world (Done w) = w"
| "final_world (Uncaught e w) = w"

text \<open>The JSON bodies among the writes of a response.\<close>

fun is_json :: "sent \<Rightarrow> bool" where
  "is_json (JsonBody c v) = True"
| "is_json (Ended c m) = False"

definition json_bodies :: "response \<Rightarrow> sent list" where
  "json_bodies r = filter is_json (written r)"

section \<open>Example states and requests\<close>

definition no_fault :: "statement \<Rightarrow> jsval list \<Rightarrow> string option" where
  "no_fault st ps = None"

definition connection_lost :: "statement \<Rightarrow> jsval list \<Rightarrow> string option" where
  "connection_lost st ps = Some ''Connection terminated''"

definition rice :: row where
  "rice = \<lparr>row_id = 5, row_name = ''Rice'', row_quantity = 2, row_expiration = Date 2025 1 1\<rparr>"

definition empty_pantry :: world where
  "empty_pantry =
     \<lparr>db = \<lparr>pantry = [], next_id = 1, fault = no_fault\<rparr>, res = fresh_response, console = []\<rparr>"

definition stocked_pantry :: world where
  "stocked_pantry =
     \<lparr>db = \<lparr>pantry = [rice], next_id = 6, fault = no_fault\<rparr>, res = fresh_response, console = []\<rparr>"

definition broken_pantry :: world where
  "broken_pantry =
     \<lparr>db = \<lparr>pantry = [rice], next_id = 6, fault = connection_lost\<rparr>, res = fresh_response,
      console = []\<rparr>"

definition no_body :: "string \<Rightarrow> request" where
  "no_body path_id = \<lparr>body = [], params = [(''id'', path_id)]\<rparr>"

definition beans :: "(string \<times> jsval) list" where
  "beans = [(''name'', JStr ''Beans''), (''quantity'', JNum 3), (''expiration'', JStr ''2026-02-03'')]"

definition root_request :: "(string \<times> jsval) list \<Rightarrow> request" where
  "root_request b = \<lparr>body = b, params = []\<rparr>"

definition update_request :: "string \<Rightarrow> (string \<times> jsval) list \<Rightarrow> request" where
  "update_request path_id b = \<lparr>body = b, params = [(''id'', path_id)]\<rparr>"

text \<open>The rendering of a date under the \<open>en-US\<close> locale, \<open>M/D/YYYY\<close>.\<close>

definition en_US_date :: "date \<Rightarrow> string" where
  "en_US_date d = decimal (month d) @ ''/'' @ decimal (day d) @ ''/'' @ decimal (year d)"

section \<open>Evaluation and helper lemmas\<close>

lemmas fixture_defs =
  no_fault_def connection_lost_def rice_def empty_pantry_def stocked_pantry_def broken_pantry_def
  no_body_def beans_def root_request_def update_request_def en_US_date_def

lemmas eval_defs =
  app_delete_id_def app_post_id_def app_post_def app_get_def id_callback_def post_callback_def
  get_callback_def getValidatedId_def getValidateName_def getValidatedQuantity_def
  getValidatedExpiration_def deleteItem_def updateItem_def insertItem_def itemExists_def
  getItems_def attempt_def db_query_def count_rows_def insert_row_def update_rows_def in_int4_def
  delete_rows_def select_rows_def refused_def result_rows_def db_error_def not_present_def
  userError_def response_end_def response_json_def internalError_def fresh_response_def
  body_field_def parseInt_def is_space_def digit_value_def is_digit_def is_yyyy_mm_dd_def
  int_string_def decimal.simps row_object_def dateObjectToString_def days_in_month_def

lemma userError_written:
  "written (userError r m) = (if written r = [] then [Ended 400 m] else written r)"
  by (simp add: userError_def response_end_def)

lemma parseInt_Nil: "parseInt [] = None"
  by (simp add: parseInt_def)

lemma regex_nonempty: "EXPIRATION_REGEX_test e \<Longrightarrow> e \<noteq> []"
  by auto

lemma yyyy_mm_dd_matches: "is_yyyy_mm_dd e \<Longrightarrow> EXPIRATION_REGEX_test e"
  by (cases e) (auto simp add: is_yyyy_mm_dd_def)

lemma getValidateName_ok:
  "body_field request ''name'' = JStr nm \<Longrightarrow> nm \<noteq> [] \<Longrightarrow>
   getValidateName request r = (JStr nm, r)"
  by (simp add: getValidateName_def)

lemma getValidatedQuantity_ok:
  "body_field request ''quantity'' = JNum q \<Longrightarrow> 1 \<le> q \<Longrightarrow>
   getValidatedQuantity request r = (JNum q, r)"
  by (auto simp add: getValidatedQuantity_def)

lemma getValidatedExpiration_ok:
  "body_field request ''expiration'' = JStr e \<Longrightarrow> EXPIRATION_REGEX_test e \<Longrightarrow>
   getValidatedExpiration request r = (JStr e, r)"
  by (cases e) (auto simp add: getValidatedExpiration_def)

lemma getValidatedId_ok:
  "map_of (params request) ''id'' = Some s \<Longrightarrow> parseInt s = Some n \<Longrightarrow>
   getValidatedId request r = (JNum (of_int n), r)"
  by (auto simp add: getValidatedId_def parseInt_Nil)

text \<open>
  The existence check compares the first row of the count query, an object, with the number
  \<open>1\<close>: whatever the table holds, it reports absence.
\<close>

lemma count_query_succeeds:
  "query_succeeds SELECT_COUNT [i] d \<Longrightarrow>
   db_query SELECT_COUNT [i] d =
     ((JNull, result_rows
         [JObj [(''count'', JStr (decimal (length (filter (id_matches i) (pantry d)))))]]), d)"
  by (auto simp add: query_succeeds_def db_query_def count_rows_def refused_def db_error_def
        split: option.splits if_splits)

lemma select_query_succeeds:
  "query_succeeds SELECT_PANTRY [] d \<Longrightarrow>
   db_query SELECT_PANTRY [] d = ((JNull, result_rows (map row_object (pantry d))), d)"
  by (auto simp add: query_succeeds_def db_query_def select_rows_def db_error_def
        split: option.splits)

lemma count_query_fails:
  "\<not> query_succeeds SELECT_COUNT [i] d \<Longrightarrow>
   \<exists>err. db_query SELECT_COUNT [i] d = ((err, JUndefined), d)"
  by (auto simp add: query_succeeds_def db_query_def count_rows_def refused_def
        split: option.splits if_splits)

lemma itemExists_false:
  "get_property item ''id'' = Inr i \<Longrightarrow> query_succeeds SELECT_COUNT [i] (db w) \<Longrightarrow>
   itemExists item callback w = callback False w"
  by (simp add: itemExists_def attempt_def count_query_succeeds result_rows_def)

lemma itemExists_never_true:
  "itemExists item callback w = callback False w \<or>
   (\<exists>e. itemExists item callback w = Uncaught e w)"
proof (cases "get_property item ''id''")
  case (Inl e)
  then show ?thesis by (simp add: itemExists_def attempt_def)
next
  case (Inr i)
  show ?thesis
  proof (cases "query_succeeds SELECT_COUNT [i] (db w)")
    case True
    with Inr show ?thesis by (simp add: itemExists_false)
  next
    case False
    from count_query_fails [OF this] Inr show ?thesis
      by (auto simp add: itemExists_def attempt_def)
  qed
qed

lemma deleteItem_not_present:
  "query_succeeds SELECT_COUNT [JUndefined] (db w) \<Longrightarrow>
   deleteItem (JNum n) callback w = callback JUndefined not_present w"
  by (simp add: deleteItem_def itemExists_false)

lemma updateItem_not_present:
  "query_succeeds SELECT_COUNT [i] (db w) \<Longrightarrow> map_of kvs ''id'' = Some i \<Longrightarrow>
   updateItem (JObj kvs) callback w = callback JUndefined not_present w"
  by (simp add: updateItem_def itemExists_false)

lemma id_callback_not_present:
  "id_callback idn JUndefined not_present w =
   Done (w\<lparr>res := userError (res w) (''Item with id '' @ template_string idn @ '' not found.'')\<rparr>)"
  by (simp add: id_callback_def not_present_def attempt_def)

text \<open>
  When the data access reports success with \<open>callback(err, item)\<close>, the handler reads
  \<open>present\<close> from the item (an object without that property, or the id number), finds
  \<open>undefined\<close> and answers "not found" all the same.
\<close>

lemma id_callback_success_is_not_found:
  "get_property result ''present'' = Inr JUndefined \<Longrightarrow>
   id_callback idn JNull result w =
   Done (w\<lparr>res := userError (res w) (''Item with id '' @ template_string idn @ '' not found.'')\<rparr>)"
  by (simp add: id_callback_def attempt_def)

lemma app_delete_id_not_found:
  assumes "map_of (params request) ''id'' = Some s" "parseInt s = Some n" "n \<noteq> 0"
    and "query_succeeds SELECT_COUNT [JUndefined] (db w)"
  shows "app_delete_id request w =
     Done (w\<lparr>res := userError (res w) (''Item with id '' @ int_string n @ '' not found.'')\<rparr>)"
  using assms
  by (simp add: app_delete_id_def getValidatedId_ok deleteItem_not_present id_callback_not_present)

lemma map_throw_dateObjectToString:
  "map_throw (dateObjectToString fmt) (map row_object rows) =
   Inr (map (\<lambda>r. JObj [(''name'', JStr (row_name r)), (''quantity'', JNum (of_int (row_quantity r))),
                        (''expiration'', JStr (fmt (row_expiration r))),
                        (''id'', JNum (of_int (row_id r)))]) rows)"
  by (induction rows) (simp_all add: dateObjectToString_def row_object_def)

lemma getValidateName_passed:
  "truthy (fst (getValidateName request r)) \<Longrightarrow>
   \<exists>v. truthy v \<and> (\<forall>r'. getValidateName request r' = (v, r'))"
  by (simp add: getValidateName_def Let_def split: if_splits)

lemma getValidatedQuantity_passed:
  "truthy (fst (getValidatedQuantity request r)) \<Longrightarrow>
   \<exists>v. truthy v \<and> (\<forall>r'. getValidatedQuantity request r' = (v, r'))"
  by (simp add: getValidatedQuantity_def Let_def split: if_splits)

lemma getValidatedExpiration_passed:
  "truthy (fst (getValidatedExpiration request r)) \<Longrightarrow>
   \<exists>v. truthy v \<and> (\<forall>r'. getValidatedExpiration request r' = (v, r'))"
  by (simp add: getValidatedExpiration_def Let_def split: if_splits)

lemma app_post_id_passed:
  assumes "passes_validation request"
    and "map_of (params request) ''id'' = Some s" "parseInt s = Some n"
  shows "app_post_id request w =
     (if n = 0 then Done w
      else updateItem
             (JObj [(''name'', fst (getValidateName request fresh_response)),
                    (''quantity'', fst (getValidatedQuantity request fresh_response)),
                    (''expiration'', fst (getValidatedExpiration request fresh_response)),
                    (''id'', JNum (of_int n))])
             (id_callback (JNum (of_int n))) w)"
proof -
  from assms(1) obtain vn where vn: "truthy vn" "\<And>r'. getValidateName request r' = (vn, r')"
    using getValidateName_passed [of request fresh_response]
    by (auto simp add: passes_validation_def)
  from assms(1) obtain vq where vq: "truthy vq" "\<And>r'. getValidatedQuantity request r' = (vq, r')"
    using getValidatedQuantity_passed [of request fresh_response]
    by (auto simp add: passes_validation_def)
  from assms(1) obtain ve where ve: "truthy ve" "\<And>r'. getValidatedExpiration request r' = (ve, r')"
    using getValidatedExpiration_passed [of request fresh_response]
    by (auto simp add: passes_validation_def)
  show ?thesis
    by (simp add: app_post_id_def vn vq ve getValidatedId_ok [OF assms(2,3)])
qed

section \<open>The existence check and the operations behind it\<close>

text \<open>
  C1. The claim: itemExists returns true if and only if a row with that id is in the pantry
  table. On the code: the table holds the row with id 5, and itemExists, asked for id 5, hands
  \<open>false\<close> to its callback.
\<close>

theorem itemExists_misses_present_row:
  "rice \<in> set (pantry (db stocked_pantry)) \<and> row_id rice = 5 \<and>
   itemExists (JObj [(''id'', JNum 5)]) callback stocked_pantry = callback False stocked_pantry"
  by (simp add: eval_defs fixture_defs)

theorem itemExists_misses_present_row_witness:
  "itemExists (JObj [(''id'', JNum 5)]) (\<lambda>exists w. Done (w\<lparr>console := [JBool exists]\<rparr>))
     stocked_pantry = Done (stocked_pantry\<lparr>console := [JBool False]\<rparr>)"
  using itemExists_misses_present_row [of "\<lambda>exists w. Done (w\<lparr>console := [JBool exists]\<rparr>)"]
  by simp

text \<open>
  C2. The claim: POST /:id on an existing row with a valid payload overwrites name, quantity
  and expiration and answers 200 with the updated item. On the code: the row with id 5 is in
  the table, the payload is valid, and the handler answers 400 "Item with id 5 not found."
  and leaves the table as it was.
\<close>

theorem update_of_present_row_not_found:
  "app_post_id (update_request ''5'' beans) stocked_pantry =
     Done (stocked_pantry\<lparr>res := \<lparr>statusCode = 400, statusMessage = ''Item with id 5 not found.'',
                                  written = [Ended 400 ''Item with id 5 not found.'']\<rparr>\<rparr>)"
  by (simp add: eval_defs fixture_defs)

theorem update_of_present_row_not_found_witness:
  "passes_validation (update_request ''5'' beans) \<and>
   pantry (db (final_world (app_post_id (update_request ''5'' beans) stocked_pantry))) = [rice] \<and>
   written (res (final_world (app_post_id (update_request ''5'' beans) stocked_pantry))) =
     [Ended 400 ''Item with id 5 not found.'']"
  using update_of_present_row_not_found
  by (simp add: stocked_pantry_def passes_validation_def update_request_def beans_def
        getValidateName_def getValidatedQuantity_def getValidatedExpiration_def body_field_def
        is_digit_def)

text \<open>
  C3. The claim: DELETE /:id on an existing row removes the row and answers 200 with the
  deleted item. On the code: the row with id 5 is in the table, and the handler answers 400
  "Item with id 5 not found." and leaves the row where it was.
\<close>

theorem delete_of_present_row_not_found:
  "app_delete_id (no_body ''5'') stocked_pantry =
     Done (stocked_pantry\<lparr>res := \<lparr>statusCode = 400, statusMessage = ''Item with id 5 not found.'',
                                  written = [Ended 400 ''Item with id 5 not found.'']\<rparr>\<rparr>)"
  by (simp add: eval_defs fixture_defs)

theorem delete_of_present_row_not_found_witness:
  "pantry (db (final_world (app_delete_id (no_body ''5'') stocked_pantry))) = [rice] \<and>
   written (res (final_world (app_delete_id (no_body ''5'') stocked_pantry))) =
     [Ended 400 ''Item with id 5 not found.'']"
  using delete_of_present_row_not_found
  by (simp add: stocked_pantry_def)

text \<open>
  C4. The claim: POST /:id or DELETE /:id on an id that matches no row answers 404 and leaves
  the table unchanged. On the code the status is 400: DELETE /7 on the empty table.
\<close>

theorem missing_id_status_counterexample:
  "pantry (db empty_pantry) = [] \<and>
   app_delete_id (no_body ''7'') empty_pantry =
     Done (empty_pantry\<lparr>res := \<lparr>statusCode = 400, statusMessage = ''Item with id 7 not found.'',
                                written = [Ended 400 ''Item with id 7 not found.'']\<rparr>\<rparr>) \<and>
   statusCode (res (final_world (app_delete_id (no_body ''7'') empty_pantry))) \<noteq> 404"
  by (simp add: eval_defs fixture_defs)

text \<open>
  C4, amended. For an id that parses to a non-zero integer a double holds exactly and that
  matches no row, on a response nothing was sent on, while the count query succeeds:
  DELETE /:id, and POST /:id with a payload that passes validation, send one user error,
  status 400 and reason "Item with id <id> not found.", and the table (the whole database
  state) is left unchanged.
\<close>

theorem missing_id_is_user_error:
  assumes "map_of (params request) ''id'' = Some s" and "parseInt s = Some n" and "n \<noteq> 0"
    and "safe_integer n"
    and "n \<notin> row_id ` set (pantry (db w))"
    and "written (res w) = []"
    and "reason = ''Item with id '' @ int_string n @ '' not found.''"
  shows "(query_succeeds SELECT_COUNT [JUndefined] (db w) \<longrightarrow>
            app_delete_id request w = Done (w\<lparr>res := userError (res w) reason\<rparr>)) \<and>
         (query_succeeds SELECT_COUNT [JNum (of_int n)] (db w) \<and> passes_validation request \<longrightarrow>
            app_post_id request w = Done (w\<lparr>res := userError (res w) reason\<rparr>)) \<and>
         statusCode (userError (res w) reason) = 400 \<and>
         written (userError (res w) reason) = [Ended 400 reason]"
proof -
  have del: "app_delete_id request w = Done (w\<lparr>res := userError (res w) reason\<rparr>)"
    if "query_succeeds SELECT_COUNT [JUndefined] (db w)"
    using app_delete_id_not_found [OF assms(1,2,3) that] assms(7) by simp
  have upd: "app_post_id request w = Done (w\<lparr>res := userError (res w) reason\<rparr>)"
    if "query_succeeds SELECT_COUNT [JNum (of_int n)] (db w)" and "passes_validation request"
    using assms(3,7) that(1)
    by (simp add: app_post_id_passed [OF that(2) assms(1,2)] updateItem_not_present
          id_callback_not_present)
  show ?thesis
    using del upd assms(6) by (simp add: userError_def response_end_def)
qed

theorem missing_id_is_user_error_witness:
  "app_delete_id (no_body ''7'') stocked_pantry =
     Done (stocked_pantry\<lparr>res := \<lparr>statusCode = 400, statusMessage = ''Item with id 7 not found.'',
                                  written = [Ended 400 ''Item with id 7 not found.'']\<rparr>\<rparr>) \<and>
   app_post_id (update_request ''7'' beans) stocked_pantry =
     Done (stocked_pantry\<lparr>res := \<lparr>statusCode = 400, statusMessage = ''Item with id 7 not found.'',
                                  written = [Ended 400 ''Item with id 7 not found.'']\<rparr>\<rparr>)"
proof -
  have p: "parseInt ''7'' = Some 7"
    by (simp add: parseInt_def is_space_def digit_value_def)
  have s: "safe_integer 7"
    by (simp add: safe_integer_def)
  have v: "passes_validation (update_request ''7'' beans)"
    by (simp add: passes_validation_def update_request_def beans_def getValidateName_def
          getValidatedQuantity_def getValidatedExpiration_def body_field_def is_digit_def)
  have a: "(7::int) \<notin> row_id ` set (pantry (db stocked_pantry))"
    by (simp add: stocked_pantry_def rice_def)
  have e: "written (res stocked_pantry) = []"
    by (simp add: stocked_pantry_def fresh_response_def)
  have f: "query_succeeds SELECT_COUNT [JUndefined] (db stocked_pantry)"
      "query_succeeds SELECT_COUNT [JNum (of_int 7)] (db stocked_pantry)"
    by (simp_all add: query_succeeds_def db_query_def count_rows_def in_int4_def
          stocked_pantry_def no_fault_def)
  have m: "''Item with id 7 not found.'' = ''Item with id '' @ int_string 7 @ '' not found.''"
    by (simp add: int_string_def decimal.simps)
  have "map_of (params (no_body ''7'')) ''id'' = Some ''7''"
    by (simp add: no_body_def)
  from missing_id_is_user_error [OF this p _ s a e m] f(1)
  have d: "app_delete_id (no_body ''7'') stocked_pantry =
      Done (stocked_pantry\<lparr>res := userError (res stocked_pantry) ''Item with id 7 not found.''\<rparr>)"
    by simp
  have "map_of (params (update_request ''7'' beans)) ''id'' = Some ''7''"
    by (simp add: update_request_def)
  from missing_id_is_user_error [OF this p _ s a e m] f(2) v
  have u: "app_post_id (update_request ''7'' beans) stocked_pantry =
      Done (stocked_pantry\<lparr>res := userError (res stocked_pantry) ''Item with id 7 not found.''\<rparr>)"
    by simp
  show ?thesis
    using d u
    by (simp add: stocked_pantry_def userError_def response_end_def fresh_response_def)
qed

section \<open>Database errors\<close>

text \<open>
  C5. The claim: when a database call signals an error, the data access hands the error to
  the handler, which answers 500 with a generic message and logs the detail. On the code:
  with every query failing, each of the four handlers ends in an uncaught \<open>TypeError\<close>
  (the query callback reads \<open>result.rows\<close> of the undefined result before it looks at the
  error); nothing is written to the response and nothing is logged.
\<close>

theorem database_error_ends_in_TypeError:
  "app_get fmt (root_request []) broken_pantry =
     Uncaught (TypeError ''Cannot read property of undefined: rows'') broken_pantry \<and>
   app_post (root_request beans) broken_pantry =
     Uncaught (TypeError ''Cannot read property of undefined: rows'') broken_pantry \<and>
   app_delete_id (no_body ''5'') broken_pantry =
     Uncaught (TypeError ''Cannot read property of undefined: rows'') broken_pantry \<and>
   app_post_id (update_request ''5'' beans) broken_pantry =
     Uncaught (TypeError ''Cannot read property of undefined: rows'') broken_pantry \<and>
   written (res broken_pantry) = [] \<and> console broken_pantry = []"
  by (simp add: eval_defs fixture_defs)

theorem database_error_ends_in_TypeError_witness:
  "written (res (final_world (app_get en_US_date (root_request []) broken_pantry))) = [] \<and>
   console (final_world (app_delete_id (no_body ''5'') broken_pantry)) = []"
  using database_error_ends_in_TypeError [of en_US_date]
  by simp

section \<open>Creating an item\<close>

text \<open>
  C7. The claim: for every payload with a non-empty string name, a numeric quantity at least
  1 and a string expiration matching YYYY-MM-DD, POST / answers 200 with the assigned id and
  the submitted fields. On the code: the payloads with quantity \<open>3/2\<close>, and with expiration
  2024-13-40, pass validation, the table (an integer and a date column) refuses them, and
  the request ends in the uncaught \<open>TypeError\<close> of a failed query with no response sent.
\<close>

theorem create_refused_payload_counterexample:
  "passes_validation (root_request
     [(''name'', JStr ''Beans''), (''quantity'', JNum (3 / 2)), (''expiration'', JStr ''2026-02-03'')]) \<and>
   app_post (root_request
     [(''name'', JStr ''Beans''), (''quantity'', JNum (3 / 2)), (''expiration'', JStr ''2026-02-03'')])
     empty_pantry =
     Uncaught (TypeError ''Cannot read property of undefined: rows'') empty_pantry \<and>
   is_yyyy_mm_dd ''2024-13-40'' \<and>
   passes_validation (root_request
     [(''name'', JStr ''Beans''), (''quantity'', JNum 3), (''expiration'', JStr ''2024-13-40'')]) \<and>
   app_post (root_request
     [(''name'', JStr ''Beans''), (''quantity'', JNum 3), (''expiration'', JStr ''2024-13-40'')])
     empty_pantry =
     Uncaught (TypeError ''Cannot read property of undefined: rows'') empty_pantry \<and>
   written (res empty_pantry) = []"
proof -
  have "\<lfloor>3 / 2 :: rat\<rfloor> = 1"
    by (simp add: floor_eq_iff)
  then have "pg_integer (JNum (3 / 2)) = None"
    by simp
  then show ?thesis
    by (simp add: eval_defs fixture_defs passes_validation_def del: pg_integer.simps)
qed

text \<open>
  C7, amended. For every payload with a non-empty string name, a numeric quantity at least 1
  and a string expiration the pattern matches, on a response nothing was sent on, when the
  database accepts the insert and answers with the id it assigned: POST / sends one
  response, status 200, whose JSON body has the submitted name, quantity and expiration and
  that integer id. (Every string of the exact form YYYY-MM-DD is matched by the pattern:
  \<open>yyyy_mm_dd_matches\<close>.)
\<close>

theorem create_answers_200_with_id:
  assumes "body_field request ''name'' = JStr nm" and "nm \<noteq> []"
    and "body_field request ''quantity'' = JNum q" and "1 \<le> q"
    and "body_field request ''expiration'' = JStr e" and "EXPIRATION_REGEX_test e"
    and "res w = fresh_response"
    and "db_query INSERT_PANTRY [JStr nm, JStr e, JNum q] (db w) =
           ((JNull, result_rows [JObj [(''id'', JNum (of_int i))]]), d)"
  shows "app_post request w =
     Done (w\<lparr>db := d,
             res := \<lparr>statusCode = 200, statusMessage = [],
                     written = [JsonBody 200
                       (JObj [(''name'', JStr nm), (''quantity'', JNum q),
                              (''expiration'', JStr e), (''id'', JNum (of_int i))])]\<rparr>\<rparr>)"
  using assms regex_nonempty [of e]
  by (simp add: app_post_def getValidateName_ok getValidatedQuantity_ok getValidatedExpiration_ok
        insertItem_def attempt_def result_rows_def post_callback_def response_json_def
        fresh_response_def)

theorem create_answers_200_with_id_witness:
  "app_post (root_request beans) stocked_pantry =
     Done (stocked_pantry
       \<lparr>db := \<lparr>pantry = [rice, \<lparr>row_id = 6, row_name = ''Beans'', row_quantity = 3,
                                 row_expiration = Date 2026 2 3\<rparr>],
               next_id = 7, fault = no_fault\<rparr>,
        res := \<lparr>statusCode = 200, statusMessage = [],
                written = [JsonBody 200
                  (JObj [(''name'', JStr ''Beans''), (''quantity'', JNum 3),
                         (''expiration'', JStr ''2026-02-03''), (''id'', JNum 6)])]\<rparr>\<rparr>)"
proof -
  have b: "body_field (root_request beans) ''name'' = JStr ''Beans''"
      "body_field (root_request beans) ''quantity'' = JNum 3"
      "body_field (root_request beans) ''expiration'' = JStr ''2026-02-03''"
    by (simp_all add: body_field_def root_request_def beans_def)
  have m: "EXPIRATION_REGEX_test ''2026-02-03''"
    by (simp add: is_digit_def)
  have r: "res stocked_pantry = fresh_response"
    by (simp add: stocked_pantry_def)
  have q: "db_query INSERT_PANTRY [JStr ''Beans'', JStr ''2026-02-03'', JNum 3] (db stocked_pantry) =
      ((JNull, result_rows [JObj [(''id'', JNum (of_int 6))]]),
       \<lparr>pantry = [rice, \<lparr>row_id = 6, row_name = ''Beans'', row_quantity = 3,
                          row_expiration = Date 2026 2 3\<rparr>],
        next_id = 7, fault = no_fault\<rparr>)"
    by (simp add: db_query_def insert_row_def stocked_pantry_def no_fault_def is_yyyy_mm_dd_def
          is_digit_def digit_value_def days_in_month_def in_int4_def)
  show ?thesis
    using create_answers_200_with_id [OF b(1) _ b(2) _ b(3) m r q]
    by simp
qed

section \<open>The quantity validator\<close>

text \<open>
  C8. The claim: the quantity validator returns an integer or signals invalid, and signals
  invalid exactly when quantity is absent, not numeric or less than 1. On the code the value
  returned need not be an integer: the quantity \<open>3/2\<close> is returned as it is.
\<close>

theorem quantity_not_integer_counterexample:
  "getValidatedQuantity (root_request [(''quantity'', JNum (3 / 2))]) fresh_response =
     (JNum (3 / 2), fresh_response) \<and> (3 / 2 :: rat) \<notin> \<int>"
  by (simp add: getValidatedQuantity_def body_field_def root_request_def)

text \<open>
  C8, amended. For every payload the quantity validator returns the submitted quantity, a
  number at least 1 (an integer or not), with the response untouched, or signals invalid by
  writing a user error and returning \<open>undefined\<close>; it signals invalid exactly when quantity is
  absent, not a number, or less than 1.
\<close>

theorem getValidatedQuantity_result:
  "(fst (getValidatedQuantity request r) = JUndefined \<longleftrightarrow>
      body_field request ''quantity'' = JUndefined \<or>
      typeof (body_field request ''quantity'') \<noteq> ''number'' \<or>
      number_less (body_field request ''quantity'') 1) \<and>
   (fst (getValidatedQuantity request r) = JUndefined \<longrightarrow>
      (\<exists>m. snd (getValidatedQuantity request r) = userError r m)) \<and>
   (fst (getValidatedQuantity request r) \<noteq> JUndefined \<longrightarrow>
      getValidatedQuantity request r = (body_field request ''quantity'', r) \<and>
      (\<exists>q. body_field request ''quantity'' = JNum q \<and> 1 \<le> q))"
  by (cases "body_field request ''quantity''")
     (auto simp add: getValidatedQuantity_def Let_def split: if_splits)

theorem getValidatedQuantity_result_witness:
  "getValidatedQuantity (root_request beans) fresh_response = (JNum 3, fresh_response) \<and>
   fst (getValidatedQuantity (root_request [(''quantity'', JNum 0)]) fresh_response) = JUndefined \<and>
   fst (getValidatedQuantity (root_request [(''quantity'', JStr ''3'')]) fresh_response) = JUndefined \<and>
   fst (getValidatedQuantity (root_request []) fresh_response) = JUndefined"
  using getValidatedQuantity_result [of "root_request beans" fresh_response]
    getValidatedQuantity_result [of "root_request [(''quantity'', JNum 0)]" fresh_response]
    getValidatedQuantity_result [of "root_request [(''quantity'', JStr ''3'')]" fresh_response]
    getValidatedQuantity_result [of "root_request []" fresh_response]
  by (simp add: body_field_def root_request_def beans_def)

section \<open>Listing the items\<close>

text \<open>
  C9. The claim: the list operation returns every row with its expiration in the YYYY-MM-DD
  format of the input, and GET / on an empty table answers 200 with an empty array. On the
  code the expiration is what \<open>toLocaleDateString()\<close> prints: under the \<open>en-US\<close> locale the
  row that expires on 2025-01-01 is listed with the expiration "1/1/2025".
\<close>

theorem list_expiration_format_counterexample:
  "app_get en_US_date (root_request []) stocked_pantry =
     Done (stocked_pantry\<lparr>res := \<lparr>statusCode = 200, statusMessage = [],
       written = [JsonBody 200 (JArr [JObj [(''name'', JStr ''Rice''), (''quantity'', JNum 2),
                    (''expiration'', JStr ''1/1/2025''), (''id'', JNum 5)]])]\<rparr>\<rparr>) \<and>
   \<not> is_yyyy_mm_dd ''1/1/2025'' \<and> \<not> EXPIRATION_REGEX_test ''1/1/2025''"
  by (simp add: eval_defs fixture_defs)

text \<open>
  C9, amended. When the select query succeeds, GET / writes one JSON response that lists
  every row of the table, in order, each with its name, quantity and id and with its
  expiration as the string \<open>toLocaleDateString()\<close> gives for the date (whatever the locale of
  the process prints, not YYYY-MM-DD in general); the table is unchanged. On an empty table
  the response is 200 with the empty array.
\<close>

theorem list_returns_every_row:
  assumes "query_succeeds SELECT_PANTRY [] (db w)"
  shows "app_get fmt request w =
           Done (w\<lparr>res := response_json
             (JArr (map (\<lambda>r. JObj [(''name'', JStr (row_name r)),
                                    (''quantity'', JNum (of_int (row_quantity r))),
                                    (''expiration'', JStr (fmt (row_expiration r))),
                                    (''id'', JNum (of_int (row_id r)))])
                        (pantry (db w)))) (res w)\<rparr>) \<and>
         (pantry (db w) = [] \<and> res w = fresh_response \<longrightarrow>
          app_get fmt request w =
            Done (w\<lparr>res := \<lparr>statusCode = 200, statusMessage = [],
                            written = [JsonBody 200 (JArr [])]\<rparr>\<rparr>))"
proof -
  have "app_get fmt request w =
      Done (w\<lparr>res := response_json
        (JArr (map (\<lambda>r. JObj [(''name'', JStr (row_name r)),
                               (''quantity'', JNum (of_int (row_quantity r))),
                               (''expiration'', JStr (fmt (row_expiration r))),
                               (''id'', JNum (of_int (row_id r)))])
                   (pantry (db w)))) (res w)\<rparr>)"
    by (simp add: app_get_def getItems_def select_query_succeeds [OF assms] result_rows_def
          attempt_def map_throw_dateObjectToString get_callback_def)
  then show ?thesis
    by (simp add: response_json_def fresh_response_def)
qed

theorem list_returns_every_row_witness:
  "app_get en_US_date (root_request []) empty_pantry =
     Done (empty_pantry\<lparr>res := \<lparr>statusCode = 200, statusMessage = [],
                                written = [JsonBody 200 (JArr [])]\<rparr>\<rparr>)"
proof -
  have "query_succeeds SELECT_PANTRY [] (db empty_pantry)"
    by (simp add: query_succeeds_def db_query_def select_rows_def empty_pantry_def no_fault_def)
  from list_returns_every_row [OF this, of en_US_date "root_request []"]
  show ?thesis
    by (simp add: empty_pantry_def response_json_def fresh_response_def)
qed

section \<open>The id 0\<close>

text \<open>
  C10. The claim: for DELETE /:id or POST /:id with an id that parses to 0, no response of any
  kind is written. On the code, POST /0 with the empty body gets the user error of the name
  validator (the quantity and expiration validators then find the response finished and
  only overwrite its status message).
\<close>

theorem zero_id_update_counterexample:
  "parseInt ''0'' = Some 0 \<and>
   app_post_id (update_request ''0'' []) empty_pantry =
     Done (empty_pantry\<lparr>res := \<lparr>statusCode = 400, statusMessage = ''expiration was undefined.'',
       written = [Ended 400 ''name was undefined.'']\<rparr>\<rparr>) \<and>
   written (res (final_world (app_post_id (update_request ''0'' []) empty_pantry))) \<noteq> []"
  by (simp add: eval_defs fixture_defs)

text \<open>
  C10, amended. For a request whose id path parameter parses to the integer 0, the id
  validator returns 0 and writes nothing. DELETE /:id then returns without a query and
  without a response: the state is unchanged. POST /:id returns without a query, and the
  only responses written are those of the name, quantity and expiration validators; when the
  payload passes validation no response is written at all.
\<close>

theorem zero_id_is_dropped:
  assumes "map_of (params request) ''id'' = Some s" and "parseInt s = Some 0"
  shows "getValidatedId request r = (JNum 0, r) \<and>
         app_delete_id request w = Done w \<and>
         app_post_id request w =
           Done (w\<lparr>res := snd (getValidatedExpiration request
                            (snd (getValidatedQuantity request
                              (snd (getValidateName request (res w))))))\<rparr>) \<and>
         (passes_validation request \<longrightarrow> app_post_id request w = Done w)"
proof -
  have i: "getValidatedId request r' = (JNum 0, r')" for r'
    using getValidatedId_ok [OF assms] by simp
  have d: "app_delete_id request w = Done w"
    by (simp add: app_delete_id_def i)
  have u: "app_post_id request w =
      Done (w\<lparr>res := snd (getValidatedExpiration request
                       (snd (getValidatedQuantity request
                         (snd (getValidateName request (res w))))))\<rparr>)"
    by (simp add: app_post_id_def i split: prod.splits)
  have p: "app_post_id request w = Done w" if "passes_validation request"
    using app_post_id_passed [OF that assms] by simp
  show ?thesis
    using i d u p by simp
qed

theorem zero_id_is_dropped_witness:
  "app_delete_id (no_body ''0'') stocked_pantry = Done stocked_pantry \<and>
   app_post_id (update_request ''0'' beans) stocked_pantry = Done stocked_pantry"
proof -
  have p: "parseInt ''0'' = Some 0"
    by (simp add: parseInt_def is_space_def digit_value_def)
  have v: "passes_validation (update_request ''0'' beans)"
    by (simp add: passes_validation_def update_request_def beans_def getValidateName_def
          getValidatedQuantity_def getValidatedExpiration_def body_field_def is_digit_def)
  have "map_of (params (no_body ''0'')) ''id'' = Some ''0''"
    by (simp add: no_body_def)
  from zero_id_is_dropped [OF this p, where w = stocked_pantry]
  have d: "app_delete_id (no_body ''0'') stocked_pantry = Done stocked_pantry"
    by simp
  have "map_of (params (update_request ''0'' beans)) ''id'' = Some ''0''"
    by (simp add: update_request_def)
  from zero_id_is_dropped [OF this p, where w = stocked_pantry] v
  have "app_post_id (update_request ''0'' beans) stocked_pantry = Done stocked_pantry"
    by blast
  with d show ?thesis
    by simp
qed

section \<open>What holds of every request\<close>

lemma json_bodies_userError: "json_bodies (userError r m) = json_bodies r"
  by (simp add: json_bodies_def userError_written)

lemma json_bodies_getValidateName:
  "json_bodies (snd (getValidateName request r)) = json_bodies r"
  by (simp add: getValidateName_def Let_def json_bodies_userError)

lemma json_bodies_getValidatedQuantity:
  "json_bodies (snd (getValidatedQuantity request r)) = json_bodies r"
  by (simp add: getValidatedQuantity_def Let_def json_bodies_userError)

lemma json_bodies_getValidatedExpiration:
  "json_bodies (snd (getValidatedExpiration request r)) = json_bodies r"
  by (simp add: getValidatedExpiration_def Let_def json_bodies_userError)

lemma json_bodies_getValidatedId:
  "json_bodies (snd (getValidatedId request r)) = json_bodies r"
  by (simp add: getValidatedId_def json_bodies_userError split: option.splits)

lemma deleteItem_cases:
  "deleteItem item callback w = callback JUndefined not_present w \<or>
   (\<exists>e. deleteItem item callback w = Uncaught e w)"
  using itemExists_never_true
    [of item "\<lambda>exists w1. if \<not> exists then callback JUndefined not_present w1
        else attempt (get_property item ''id'') w1 (\<lambda>i.
          case db_query DELETE_PANTRY [i] (db w1) of
            ((err, result), d) \<Rightarrow> callback err item (w1\<lparr>db := d\<rparr>))" w]
  by (auto simp add: deleteItem_def)

lemma updateItem_cases:
  "updateItem item callback w = callback JUndefined not_present w \<or>
   (\<exists>e. updateItem item callback w = Uncaught e w)"
  using itemExists_never_true
    [of item "\<lambda>exists w1. if \<not> exists then callback JUndefined not_present w1
        else attempt (get_property item ''name'') w1 (\<lambda>name.
             attempt (get_property item ''expiration'') w1 (\<lambda>expiration.
             attempt (get_property item ''quantity'') w1 (\<lambda>quantity.
             attempt (get_property item ''id'') w1 (\<lambda>i.
               case db_query UPDATE_PANTRY [name, expiration, quantity, i] (db w1) of
                 ((err, result), d) \<Rightarrow> callback err item (w1\<lparr>db := d\<rparr>)))))" w]
  by (auto simp add: updateItem_def)

lemma delete_frame:
  "db (final_world (app_delete_id request w)) = db w \<and>
   console (final_world (app_delete_id request w)) = console w \<and>
   json_bodies (res (final_world (app_delete_id request w))) = json_bodies (res w)"
proof (cases "getValidatedId request (res w)")
  case (Pair idn r1)
  then have j: "json_bodies r1 = json_bodies (res w)"
    using json_bodies_getValidatedId [of request "res w"] by simp
  show ?thesis
  proof (cases "truthy idn")
    case False
    with Pair j show ?thesis by (simp add: app_delete_id_def)
  next
    case True
    from deleteItem_cases [of idn "id_callback idn" "w\<lparr>res := r1\<rparr>"]
    show ?thesis
    proof
      assume "deleteItem idn (id_callback idn) (w\<lparr>res := r1\<rparr>) =
        id_callback idn JUndefined not_present (w\<lparr>res := r1\<rparr>)"
      with Pair True j show ?thesis
        by (simp add: app_delete_id_def id_callback_not_present json_bodies_userError)
    next
      assume "\<exists>e. deleteItem idn (id_callback idn) (w\<lparr>res := r1\<rparr>) = Uncaught e (w\<lparr>res := r1\<rparr>)"
      with Pair True j show ?thesis
        by (auto simp add: app_delete_id_def)
    qed
  qed
qed

lemma update_frame:
  "db (final_world (app_post_id request w)) = db w \<and>
   console (final_world (app_post_id request w)) = console w \<and>
   json_bodies (res (final_world (app_post_id request w))) = json_bodies (res w)"
proof -
  obtain name r1 where n: "getValidateName request (res w) = (name, r1)"
    by (cases "getValidateName request (res w)")
  obtain quantity r2 where q: "getValidatedQuantity request r1 = (quantity, r2)"
    by (cases "getValidatedQuantity request r1")
  obtain expiration r3 where e: "getValidatedExpiration request r2 = (expiration, r3)"
    by (cases "getValidatedExpiration request r2")
  obtain idn r4 where i: "getValidatedId request r3 = (idn, r4)"
    by (cases "getValidatedId request r3")
  have j: "json_bodies r4 = json_bodies (res w)"
    using json_bodies_getValidateName [of request "res w"]
      json_bodies_getValidatedQuantity [of request r1]
      json_bodies_getValidatedExpiration [of request r2]
      json_bodies_getValidatedId [of request r3] n q e i
    by simp
  let ?item = "JObj [(''name'', name), (''quantity'', quantity), (''expiration'', expiration),
                     (''id'', idn)]"
  show ?thesis
  proof (cases "\<not> truthy name \<or> \<not> truthy quantity \<or> \<not> truthy expiration \<or> \<not> truthy idn")
    case True
    with n q e i j show ?thesis by (simp add: app_post_id_def)
  next
    case False
    then have run: "app_post_id request w = updateItem ?item (id_callback idn) (w\<lparr>res := r4\<rparr>)"
      using n q e i by (simp add: app_post_id_def)
    from updateItem_cases [of ?item "id_callback idn" "w\<lparr>res := r4\<rparr>"]
    show ?thesis
    proof
      assume "updateItem ?item (id_callback idn) (w\<lparr>res := r4\<rparr>) =
        id_callback idn JUndefined not_present (w\<lparr>res := r4\<rparr>)"
      with run j show ?thesis
        by (simp add: id_callback_not_present json_bodies_userError)
    next
      assume "\<exists>e. updateItem ?item (id_callback idn) (w\<lparr>res := r4\<rparr>) = Uncaught e (w\<lparr>res := r4\<rparr>)"
      with run j show ?thesis
        by auto
    qed
  qed
qed

text \<open>
  Whatever the item, the callback and the state, itemExists passes \<open>false\<close> to its
  callback in the state it was called in, or ends in an uncaught \<open>TypeError\<close>: it never
  reports that a row exists.
\<close>

theorem itemExists_reports_absence_only:
  "itemExists item callback w = callback False w \<or>
   (\<exists>e. itemExists item callback w = Uncaught e w)"
  by (rule itemExists_never_true)

text \<open>
  For every request and every state, DELETE /:id and POST /:id leave the database as it
  was, log nothing and write no JSON body: the update and the delete statement are never
  run, and neither handler ever answers with an item.
\<close>

theorem update_and_delete_change_nothing:
  "db (final_world (app_delete_id request w)) = db w \<and>
   json_bodies (res (final_world (app_delete_id request w))) = json_bodies (res w) \<and>
   db (final_world (app_post_id request w)) = db w \<and>
   json_bodies (res (final_world (app_post_id request w))) = json_bodies (res w)"
  using delete_frame [of request w] update_frame [of request w]
  by simp

theorem update_and_delete_change_nothing_witness:
  "pantry (db (final_world (app_delete_id (no_body ''5'') stocked_pantry))) = [rice] \<and>
   json_bodies (res (final_world (app_post_id (update_request ''5'' beans) stocked_pantry))) = []"
  using update_and_delete_change_nothing [of "no_body ''5''" stocked_pantry]
    update_and_delete_change_nothing [of "update_request ''5'' beans" stocked_pantry]
  by (simp add: stocked_pantry_def json_bodies_def fresh_response_def)

text \<open>
  When its query fails, a data-access function ends in a \<open>TypeError\<close> in the state it was
  called in: the callback, and with it the handler's answer 500, is never reached.
\<close>

theorem failed_query_never_reaches_callback:
  "(fault (db w) SELECT_PANTRY [] = Some m \<longrightarrow>
      getItems fmt callback w =
        Uncaught (TypeError ''Cannot read property of undefined: rows'') w) \<and>
   (fault (db w) INSERT_PANTRY [n, e, q] = Some m \<longrightarrow>
      insertItem (JObj [(''name'', n), (''quantity'', q), (''expiration'', e)]) callback w =
        Uncaught (TypeError ''Cannot read property of undefined: rows'') w) \<and>
   (fault (db w) SELECT_COUNT [i] = Some m \<longrightarrow>
      itemExists (JObj [(''id'', i)]) exists_callback w =
        Uncaught (TypeError ''Cannot read property of undefined: rows'') w)"
  by (simp add: getItems_def insertItem_def itemExists_def attempt_def db_query_def)

theorem failed_query_never_reaches_callback_witness:
  "getItems en_US_date get_callback broken_pantry =
     Uncaught (TypeError ''Cannot read property of undefined: rows'') broken_pantry \<and>
   insertItem (JObj [(''name'', JStr ''Beans''), (''quantity'', JNum 3),
                     (''expiration'', JStr ''2026-02-03'')]) post_callback broken_pantry =
     Uncaught (TypeError ''Cannot read property of undefined: rows'') broken_pantry"
  using failed_query_never_reaches_callback
    [where w = broken_pantry and m = "''Connection terminated''" and fmt = en_US_date
       and callback = get_callback]
    failed_query_never_reaches_callback
    [where w = broken_pantry and m = "''Connection terminated''" and n = "JStr ''Beans''"
       and e = "JStr ''2026-02-03''" and q = "JNum 3" and callback = post_callback]
  by (simp add: broken_pantry_def connection_lost_def)

text \<open>
  On the database of the model: for a valid payload whose quantity is an integer and
  whose expiration is a calendar date, with no fault, POST / appends the row under the next
  id and answers 200 with that id.
\<close>

theorem create_appends_row:
  assumes "body_field request ''name'' = JStr nm" and "nm \<noteq> []"
    and "body_field request ''quantity'' = JNum q" and "1 \<le> q"
    and "body_field request ''expiration'' = JStr e" and "EXPIRATION_REGEX_test e"
    and "res w = fresh_response"
    and "fault (db w) INSERT_PANTRY [JStr nm, JStr e, JNum q] = None"
    and "pg_integer (JNum q) = Some k" and "pg_date (JStr e) = Some dt"
  shows "app_post request w =
     Done (w\<lparr>db := (db w)\<lparr>pantry := pantry (db w) @
                        [\<lparr>row_id = next_id (db w), row_name = nm, row_quantity = k,
                          row_expiration = dt\<rparr>],
                      next_id := next_id (db w) + 1\<rparr>,
             res := \<lparr>statusCode = 200, statusMessage = [],
                     written = [JsonBody 200
                       (JObj [(''name'', JStr nm), (''quantity'', JNum q),
                              (''expiration'', JStr e),
                              (''id'', JNum (of_int (next_id (db w))))])]\<rparr>\<rparr>)"
  using assms regex_nonempty [of e]
  by (simp add: app_post_def getValidateName_ok getValidatedQuantity_ok getValidatedExpiration_ok
        insertItem_def attempt_def db_query_def insert_row_def result_rows_def post_callback_def
        response_json_def fresh_response_def del: pg_integer.simps pg_date.simps)

theorem create_appends_row_witness:
  "app_post (root_request beans) empty_pantry =
     Done (empty_pantry
       \<lparr>db := \<lparr>pantry = [\<lparr>row_id = 1, row_name = ''Beans'', row_quantity = 3,
                           row_expiration = Date 2026 2 3\<rparr>],
               next_id = 2, fault = no_fault\<rparr>,
        res := \<lparr>statusCode = 200, statusMessage = [],
                written = [JsonBody 200
                  (JObj [(''name'', JStr ''Beans''), (''quantity'', JNum 3),
                         (''expiration'', JStr ''2026-02-03''), (''id'', JNum 1)])]\<rparr>\<rparr>)"
proof -
  have b: "body_field (root_request beans) ''name'' = JStr ''Beans''"
      "body_field (root_request beans) ''quantity'' = JNum 3"
      "body_field (root_request beans) ''expiration'' = JStr ''2026-02-03''"
    by (simp_all add: body_field_def root_request_def beans_def)
  have m: "EXPIRATION_REGEX_test ''2026-02-03''"
    by (simp add: is_digit_def)
  have r: "res empty_pantry = fresh_response"
    by (simp add: empty_pantry_def)
  have f: "fault (db empty_pantry) INSERT_PANTRY [JStr ''Beans'', JStr ''2026-02-03'', JNum 3] = None"
    by (simp add: empty_pantry_def no_fault_def)
  have k: "pg_integer (JNum 3) = Some 3"
    by (simp add: in_int4_def)
  have d: "pg_date (JStr ''2026-02-03'') = Some (Date 2026 2 3)"
    by (simp add: is_yyyy_mm_dd_def is_digit_def digit_value_def days_in_month_def)
  show ?thesis
    using create_appends_row [OF b(1) _ b(2) _ b(3) m r f k d]
    by (simp add: empty_pantry_def)
qed

section \<open>One response per request\<close>

lemma getValidateName_cases:
  "(\<exists>v. truthy v \<and> (\<forall>r. getValidateName request r = (v, r))) \<or>
   (\<exists>m. \<forall>r. getValidateName request r = (JUndefined, userError r m))"
proof (cases "truthy (body_field request ''name'')")
  case False
  then have "\<forall>r. getValidateName request r = (JUndefined, userError r ''name was undefined.'')"
    by (simp add: getValidateName_def)
  then show ?thesis by blast
next
  case True
  show ?thesis
  proof (cases "typeof (body_field request ''name'') \<noteq> ''string'' \<or>
      get_property (body_field request ''name'') ''length'' = Inr (JNum 0)")
    case True
    with \<open>truthy (body_field request ''name'')\<close>
    have "\<forall>r. getValidateName request r =
        (JUndefined, userError r ''name was not a string or was empty.'')"
      by (simp add: getValidateName_def Let_def)
    then show ?thesis by blast
  next
    case False
    with \<open>truthy (body_field request ''name'')\<close>
    have "\<forall>r. getValidateName request r = (body_field request ''name'', r)"
      by (simp add: getValidateName_def Let_def)
    with \<open>truthy (body_field request ''name'')\<close> show ?thesis by blast
  qed
qed

lemma getValidatedQuantity_cases:
  "(\<exists>v. truthy v \<and> (\<forall>r. getValidatedQuantity request r = (v, r))) \<or>
   (\<exists>m. \<forall>r. getValidatedQuantity request r = (JUndefined, userError r m))"
proof (cases "truthy (body_field request ''quantity'')")
  case False
  then have "\<forall>r. getValidatedQuantity request r =
      (JUndefined, userError r ''quantity was undefined.'')"
    by (simp add: getValidatedQuantity_def)
  then show ?thesis by blast
next
  case True
  show ?thesis
  proof (cases "typeof (body_field request ''quantity'') \<noteq> ''number'' \<or>
      number_less (body_field request ''quantity'') 1")
    case True
    with \<open>truthy (body_field request ''quantity'')\<close>
    have "\<forall>r. getValidatedQuantity request r =
        (JUndefined, userError r ''quantity was not a number or was less than 1.'')"
      by (simp add: getValidatedQuantity_def Let_def)
    then show ?thesis by blast
  next
    case False
    with \<open>truthy (body_field request ''quantity'')\<close>
    have "\<forall>r. getValidatedQuantity request r = (body_field request ''quantity'', r)"
      by (simp add: getValidatedQuantity_def Let_def)
    with \<open>truthy (body_field request ''quantity'')\<close> show ?thesis by blast
  qed
qed

lemma getValidatedExpiration_cases:
  "(\<exists>v. truthy v \<and> (\<forall>r. getValidatedExpiration request r = (v, r))) \<or>
   (\<exists>m. \<forall>r. getValidatedExpiration request r = (JUndefined, userError r m))"
proof (cases "truthy (body_field request ''expiration'')")
  case False
  then have "\<forall>r. getValidatedExpiration request r =
      (JUndefined, userError r ''expiration was undefined.'')"
    by (simp add: getValidatedExpiration_def)
  then show ?thesis by blast
next
  case True
  show ?thesis
  proof (cases "typeof (body_field request ''expiration'') \<noteq> ''string'' \<or>
      \<not> regex_test (body_field request ''expiration'')")
    case True
    with \<open>truthy (body_field request ''expiration'')\<close>
    have "\<forall>r. getValidatedExpiration request r =
        (JUndefined, userError r
           (''expiration date was not a string '' @ ''or it was not of the format YYYY-MM-DD.''))"
      by (simp add: getValidatedExpiration_def Let_def)
    then show ?thesis by blast
  next
    case False
    with \<open>truthy (body_field request ''expiration'')\<close>
    have "\<forall>r. getValidatedExpiration request r = (body_field request ''expiration'', r)"
      by (simp add: getValidatedExpiration_def Let_def)
    with \<open>truthy (body_field request ''expiration'')\<close> show ?thesis by blast
  qed
qed

lemma getValidatedId_cases:
  "(\<exists>v. \<forall>r. getValidatedId request r = (v, r)) \<or>
   (\<exists>m. \<forall>r. getValidatedId request r = (JUndefined, userError r m))"
proof (cases "map_of (params request) ''id''")
  case None
  then have "\<forall>r. getValidatedId request r = (JUndefined, userError r ''id was undefined.'')"
    by (simp add: getValidatedId_def)
  then show ?thesis by blast
next
  case (Some s)
  show ?thesis
  proof (cases "s = []")
    case True
    with Some have "\<forall>r. getValidatedId request r = (JUndefined, userError r ''id was undefined.'')"
      by (simp add: getValidatedId_def)
    then show ?thesis by blast
  next
    case False
    show ?thesis
    proof (cases "parseInt s")
      case None
      with Some False
      have "\<forall>r. getValidatedId request r = (JUndefined, userError r ''id was not a number.'')"
        by (simp add: getValidatedId_def)
      then show ?thesis by blast
    next
      case (Some n)
      with \<open>map_of (params request) ''id'' = Some s\<close> False
      have "\<forall>r. getValidatedId request r = (JNum (of_int n), r)"
        by (simp add: getValidatedId_def)
      then show ?thesis by blast
    qed
  qed
qed

text \<open>
  The three field validators in a row, as both POST handlers run them: when one of them
  fails, exactly one user error has been sent afterwards, that of the first that failed.
\<close>

lemma fields_rejected:
  assumes "\<not> passes_validation request" and "written r = []"
  shows "\<exists>m. written (snd (getValidatedExpiration request
                (snd (getValidatedQuantity request (snd (getValidateName request r)))))) =
              [Ended 400 m] \<and>
             (\<not> truthy (fst (getValidateName request r)) \<or>
              \<not> truthy (fst (getValidatedQuantity request (snd (getValidateName request r)))) \<or>
              \<not> truthy (fst (getValidatedExpiration request
                   (snd (getValidatedQuantity request (snd (getValidateName request r)))))))"
  using getValidateName_cases [of request] getValidatedQuantity_cases [of request]
    getValidatedExpiration_cases [of request] assms
  by (elim disjE exE conjE) (simp_all add: passes_validation_def userError_written)

lemma insertItem_cases:
  "(\<exists>e w'. insertItem item callback w = Uncaught e w' \<and> res w' = res w) \<or>
   (\<exists>err item1 w'. insertItem item callback w = callback err item1 w' \<and> res w' = res w)"
  unfolding insertItem_def attempt_def
  by (fastforce split: sum.splits prod.splits)

lemma getItems_cases:
  "(\<exists>e w'. getItems fmt callback w = Uncaught e w' \<and> res w' = res w) \<or>
   (\<exists>err items w'. getItems fmt callback w = callback err items w' \<and> res w' = res w)"
  unfolding getItems_def attempt_def
  by (fastforce split: sum.splits prod.splits)

lemma callback_writes_once:
  assumes "written (res w) = []"
  shows "length (written (res (final_world (get_callback err items w)))) = 1"
    and "length (written (res (final_world (post_callback err item w)))) = 1"
    and "length (written (res (final_world (id_callback idn JUndefined not_present w)))) = 1"
  using assms
  by (simp_all add: get_callback_def post_callback_def internalError_def response_end_def
        response_json_def id_callback_not_present userError_written)

lemma app_get_once:
  assumes "written (res w) = []"
  shows "length (written (res (final_world (app_get fmt request w)))) \<le> 1"
  using getItems_cases [of fmt get_callback w] callback_writes_once(1) assms
  by (auto simp add: app_get_def)

lemma app_post_once:
  assumes "written (res w) = []"
  shows "length (written (res (final_world (app_post request w)))) \<le> 1"
    and "\<not> passes_validation request \<Longrightarrow>
         \<exists>m. written (res (final_world (app_post request w))) = [Ended 400 m]"
proof -
  have rejected: "\<exists>m. written (res (final_world (app_post request w))) = [Ended 400 m]"
    if "\<not> passes_validation request"
    using fields_rejected [OF that assms]
    by (auto simp add: app_post_def split: prod.splits)
  have passed: "length (written (res (final_world (app_post request w)))) \<le> 1"
    if p: "passes_validation request"
  proof -
    from p obtain vn where vn: "truthy vn" "\<And>r'. getValidateName request r' = (vn, r')"
      using getValidateName_passed [of request fresh_response]
      by (auto simp add: passes_validation_def)
    from p obtain vq where vq: "truthy vq" "\<And>r'. getValidatedQuantity request r' = (vq, r')"
      using getValidatedQuantity_passed [of request fresh_response]
      by (auto simp add: passes_validation_def)
    from p obtain ve where ve: "truthy ve" "\<And>r'. getValidatedExpiration request r' = (ve, r')"
      using getValidatedExpiration_passed [of request fresh_response]
      by (auto simp add: passes_validation_def)
    show ?thesis
      using insertItem_cases
          [of "JObj [(''name'', vn), (''quantity'', vq), (''expiration'', ve)]" post_callback w]
        callback_writes_once(2) assms
      by (auto simp add: app_post_def vn vq ve)
  qed
  show "length (written (res (final_world (app_post request w)))) \<le> 1"
    using rejected passed by (cases "passes_validation request") auto
  show "\<exists>m. written (res (final_world (app_post request w))) = [Ended 400 m]"
    if "\<not> passes_validation request"
    using rejected that by simp
qed

lemma app_delete_id_once:
  assumes "written (res w) = []"
  shows "length (written (res (final_world (app_delete_id request w)))) \<le> 1"
  using getValidatedId_cases [of request]
proof (elim disjE exE)
  fix m assume "\<forall>r. getValidatedId request r = (JUndefined, userError r m)"
  then show ?thesis
    using assms by (simp add: app_delete_id_def userError_written)
next
  fix v assume v: "\<forall>r. getValidatedId request r = (v, r)"
  show ?thesis
  proof (cases "truthy v")
    case False
    with v assms show ?thesis by (simp add: app_delete_id_def)
  next
    case True
    with v have run: "app_delete_id request w = deleteItem v (id_callback v) w"
      by (simp add: app_delete_id_def)
    from deleteItem_cases [of v "id_callback v" w] callback_writes_once(3) [OF assms, of v] assms
    show ?thesis
      by (auto simp add: run)
  qed
qed

lemma app_post_id_once:
  assumes "written (res w) = []"
  shows "length (written (res (final_world (app_post_id request w)))) \<le> 1"
    and "\<not> passes_validation request \<Longrightarrow>
         \<exists>m. written (res (final_world (app_post_id request w))) = [Ended 400 m]"
proof -
  have rejected: "\<exists>m. written (res (final_world (app_post_id request w))) = [Ended 400 m]"
    if "\<not> passes_validation request"
    using fields_rejected [OF that assms] getValidatedId_cases [of request]
    by (elim disjE exE conjE) (auto simp add: app_post_id_def userError_written split: prod.splits)
  have passed: "length (written (res (final_world (app_post_id request w)))) \<le> 1"
    if p: "passes_validation request"
  proof -
    from p obtain vn where vn: "truthy vn" "\<And>r'. getValidateName request r' = (vn, r')"
      using getValidateName_passed [of request fresh_response]
      by (auto simp add: passes_validation_def)
    from p obtain vq where vq: "truthy vq" "\<And>r'. getValidatedQuantity request r' = (vq, r')"
      using getValidatedQuantity_passed [of request fresh_response]
      by (auto simp add: passes_validation_def)
    from p obtain ve where ve: "truthy ve" "\<And>r'. getValidatedExpiration request r' = (ve, r')"
      using getValidatedExpiration_passed [of request fresh_response]
      by (auto simp add: passes_validation_def)
    from getValidatedId_cases [of request] show ?thesis
    proof (elim disjE exE)
      fix m assume "\<forall>r. getValidatedId request r = (JUndefined, userError r m)"
      then show ?thesis
        using assms by (simp add: app_post_id_def vn vq ve userError_written)
    next
      fix v assume v: "\<forall>r. getValidatedId request r = (v, r)"
      show ?thesis
      proof (cases "truthy v")
        case False
        with v assms show ?thesis by (simp add: app_post_id_def vn vq ve)
      next
        case True
        let ?item = "JObj [(''name'', vn), (''quantity'', vq), (''expiration'', ve), (''id'', v)]"
        from True v have run: "app_post_id request w = updateItem ?item (id_callback v) w"
          by (simp add: app_post_id_def vn vq ve)
        from updateItem_cases [of ?item "id_callback v" w]
          callback_writes_once(3) [OF assms, of v] assms
        show ?thesis
          by (auto simp add: run)
      qed
    qed
  qed
  show "length (written (res (final_world (app_post_id request w)))) \<le> 1"
    using rejected passed by (cases "passes_validation request") auto
  show "\<exists>m. written (res (final_world (app_post_id request w))) = [Ended 400 m]"
    if "\<not> passes_validation request"
    using rejected that by simp
qed

text \<open>
  C6. Once a response has been sent, a further user error or \<open>end()\<close> sends nothing; and for
  every request that starts on a response nothing was sent on, each of the four handlers
  leaves at most one response sent. In particular a create or update request whose payload
  fails validation, in one field or in several, gets exactly one response, a user error
  with status 400. (Of the id the statement uses only whether it is absent, not a number,
  zero or non-zero, and there \<open>parseInt\<close> agrees with JavaScript for every string.)
\<close>

theorem one_response_per_request:
  assumes "written (res w) = []"
  shows "length (written (res (final_world (app_get fmt request w)))) \<le> 1 \<and>
         length (written (res (final_world (app_post request w)))) \<le> 1 \<and>
         length (written (res (final_world (app_delete_id request w)))) \<le> 1 \<and>
         length (written (res (final_world (app_post_id request w)))) \<le> 1 \<and>
         (\<not> passes_validation request \<longrightarrow>
            (\<exists>m. written (res (final_world (app_post request w))) = [Ended 400 m]) \<and>
            (\<exists>m. written (res (final_world (app_post_id request w))) = [Ended 400 m])) \<and>
         (written r \<noteq> [] \<longrightarrow>
            written (userError r reason) = written r \<and> written (response_end r) = written r)"
  using app_get_once [OF assms, of fmt request] app_post_once [OF assms, of request]
    app_delete_id_once [OF assms, of request] app_post_id_once [OF assms, of request]
  by (simp add: userError_written response_end_def)

theorem one_response_per_request_witness:
  "written (res empty_pantry) = [] \<and> \<not> passes_validation (root_request []) \<and>
   app_post (root_request []) empty_pantry =
     Done (empty_pantry\<lparr>res := \<lparr>statusCode = 400, statusMessage = ''expiration was undefined.'',
                                written = [Ended 400 ''name was undefined.'']\<rparr>\<rparr>) \<and>
   length (written (res (final_world (app_post (root_request []) empty_pantry)))) \<le> 1 \<and>
   (\<exists>m. written (res (final_world (app_post (root_request []) empty_pantry))) = [Ended 400 m])"
proof -
  have e: "written (res empty_pantry) = []"
    by (simp add: empty_pantry_def fresh_response_def)
  have n: "\<not> passes_validation (root_request [])"
    by (simp add: passes_validation_def root_request_def getValidateName_def body_field_def)
  have v: "app_post (root_request []) empty_pantry =
     Done (empty_pantry\<lparr>res := \<lparr>statusCode = 400, statusMessage = ''expiration was undefined.'',
                                written = [Ended 400 ''name was undefined.'']\<rparr>\<rparr>)"
    by (simp add: eval_defs fixture_defs)
  from one_response_per_request [OF e, of en_US_date "root_request []"] n e v
  show ?thesis
    by blast
qed

end
